theory Spec2Isabelle
  imports Main "HOL-Library.AList"
begin

section \<open>Python values\<close>

text \<open>
  The values \<open>json.load\<close> produces. Numbers are integers here: no claim depends on a
  float. A dict is an association list, in insertion order, as Python keeps it.
\<close>

datatype json =
    JNull
  | JBool bool
  | JInt int
  | JStr string
  | JList "json list"
  | JObj "(string \<times> json) list"

type_synonym config = "(string \<times> json) list"

text \<open>Python's truth value of a JSON value (\<open>if directory and ...\<close>).\<close>

fun truthy :: "json \<Rightarrow> bool" where
  "truthy JNull = False"
| "truthy (JBool b) = b"
| "truthy (JInt n) = (n \<noteq> 0)"
| "truthy (JStr s) = (s \<noteq> [])"
| "truthy (JList xs) = (xs \<noteq> [])"
| "truthy (JObj kvs) = (kvs \<noteq> [])"

text \<open>Truth value of a \<open>str | None\<close>: \<open>None\<close> and the empty string are false.\<close>

fun truthy_str :: "string option \<Rightarrow> bool" where
  "truthy_str None = False"
| "truthy_str (Some s) = (s \<noteq> [])"

text \<open>
  Exceptions. \<open>KeyboardInterrupt\<close> and \<open>SystemExit\<close> derive from \<open>BaseException\<close>
  only, so \<open>except Exception\<close> does not catch them. Every other exception is an
  \<open>Exception\<close> with its class name and its \<open>str(e)\<close>.
\<close>

datatype exn =
    KeyboardInterrupt
  | SystemExit int
  | Exception string string

fun is_Exception :: "exn \<Rightarrow> bool" where
  "is_Exception (Exception cls msg) = True"
| "is_Exception KeyboardInterrupt = False"
| "is_Exception (SystemExit n) = False"

fun str_exn :: "exn \<Rightarrow> string" where
  "str_exn (Exception cls msg) = msg"
| "str_exn KeyboardInterrupt = []"
| "str_exn (SystemExit n) = []"

text \<open>How a text stream ends: it is exhausted, or the iteration raises.\<close>

datatype stream_end = Completed | Raised exn

text \<open>\<open>str(n)\<close> of an integer, for the f-strings.\<close>

definition digit_char :: "nat \<Rightarrow> char" where
  "digit_char d = char_of (48 + d)"

fun str_nat :: "nat \<Rightarrow> string" where
  "str_nat n = (if n < 10 then [digit_char n] else str_nat (n div 10) @ [digit_char (n mod 10)])"

declare str_nat.simps [simp del]

definition str_int :: "int \<Rightarrow> string" where
  "str_int i = (if i < 0 then CHR ''-'' # str_nat (nat (- i)) else str_nat (nat i))"

definition newline :: string where
  "newline = [CHR 0x0A]"

section \<open>The world the program runs in\<close>

text \<open>
  What reading the bytes of \<open>config.json\<close> gives, once the file is open for reading:
  \<^item> \<open>Undecodable\<close>: the bytes are not UTF-8 (a file holding the single byte 0xFF). The
    file is opened with \<open>encoding="utf-8"\<close>, so \<open>json.load\<close>, which reads the whole text,
    raises \<open>UnicodeDecodeError\<close>. That class derives from \<open>ValueError\<close>; it is neither a
    \<open>json.JSONDecodeError\<close> nor an \<open>OSError\<close>.
  \<^item> \<open>Malformed\<close>: the text is not JSON; \<open>json.load\<close> raises \<open>json.JSONDecodeError\<close>.
  \<^item> \<open>Document c\<close>: \<open>json.load\<close> returns the dict \<open>c\<close>. \<open>load_config\<close> is annotated
    \<open>dict[str, Any]\<close>; a JSON text that is not an object is outside this model.
\<close>

datatype content = Undecodable | Malformed | Document config

text \<open>What the project scanner (module \<open>scanner\<close>) reports for a directory.\<close>

record scan =
  scan_log :: "string list"
  total_files :: nat
  n_signatures :: nat

text \<open>
  The state of the process and of its surroundings. The environment variables are read
  after \<open>load_dotenv()\<close> has run, and are given as they are then.
  \<^item> \<open>cfg_exists\<close>, \<open>cfg_readable\<close>, \<open>cfg_writable\<close>, \<open>cfg_content\<close>: the file
    \<open>get_config_path()\<close> names: whether it exists, whether opening it for reading and for
    writing succeeds (otherwise \<open>open\<close> raises \<open>OSError\<close>), and what it holds. The
    configuration directory itself is taken to exist (\<open>get_config_dir\<close> creates it).
  \<^item> \<open>is_dir\<close>, \<open>expanduser\<close>, \<open>cwd\<close>: \<open>Path(p).is_dir()\<close>, \<open>os.path.expanduser(p)\<close>,
    \<open>os.getcwd()\<close>.
  \<^item> \<open>realpath\<close>: what \<open>Path(p).resolve()\<close> finds for \<open>p\<close>, written without the leading
    root \<open>/\<close>.
  \<^item> \<open>scan_project\<close>, \<open>enrich\<close>, \<open>pbcopy\<close>, \<open>json_dumps\<close>: the collaborators: the
    scanner, the chunks \<open>enricher.enrich(prompt)\<close> yields and how that stream ends, the
    exception (if any) that running \<open>pbcopy\<close> on a text raises, and \<open>json.dumps(c, indent=2)\<close>.
  \<^item> \<open>stdout\<close>, \<open>stderr\<close>: the texts written so far, one entry for each \<open>print\<close>.
  \<^item> \<open>dispatched\<close>: the prompts handed to the enricher so far.
  \<^item> \<open>tui_runs\<close>: how often the interactive application was launched.
\<close>

record world =
  cfg_path :: string
  cfg_exists :: bool
  cfg_readable :: bool
  cfg_writable :: bool
  cfg_content :: content
  is_dir :: "string \<Rightarrow> bool"
  realpath :: "string \<Rightarrow> string"
  expanduser :: "string \<Rightarrow> string"
  cwd :: string
  groq_api_key :: "string option"
  magic_prompt_dir :: "string option"
  stdin_isatty :: bool
  stdin_text :: string
  scan_project :: "string \<Rightarrow> scan"
  enrich :: "string \<Rightarrow> string list \<times> stream_end"
  pbcopy :: "string \<Rightarrow> exn option"
  json_dumps :: "config \<Rightarrow> string"
  stdout :: "string list"
  stderr :: "string list"
  dispatched :: "string list"
  tui_runs :: nat

text \<open>\<open>str(Path(p).resolve())\<close>: an absolute path, so it starts with the root.\<close>

definition resolve :: "world \<Rightarrow> string \<Rightarrow> string" where
  "resolve w p = CHR ''/'' # realpath w p"

definition print_out :: "string \<Rightarrow> world \<Rightarrow> world" where
  "print_out s w = w\<lparr>stdout := stdout w @ [s]\<rparr>"

definition print_err :: "string \<Rightarrow> world \<Rightarrow> world" where
  "print_err s w = w\<lparr>stderr := stderr w @ [s]\<rparr>"

section \<open>Module config\<close>

definition unicode_decode_error :: exn where
  "unicode_decode_error = Exception ''UnicodeDecodeError'' ''utf-8 codec cannot decode byte''"

definition os_error :: exn where
  "os_error = Exception ''OSError'' ''Permission denied''"

definition type_error :: exn where
  "type_error = Exception ''TypeError'' ''expected str, bytes or os.PathLike object''"

text \<open>
  \<open>load_config\<close>: the handler catches \<open>json.JSONDecodeError\<close> and \<open>OSError\<close>; any other
  exception of the \<open>try\<close> body reaches the caller.
\<close>

definition load_config :: "world \<Rightarrow> exn + config" where
  "load_config w =
     (if cfg_exists w then
        (if \<not> cfg_readable w then Inr []
         else case cfg_content w of
                Undecodable \<Rightarrow> Inl unicode_decode_error
              | Malformed \<Rightarrow> Inr []
              | Document c \<Rightarrow> Inr c)
      else Inr [])"

text \<open>
  \<open>save_config\<close>: \<open>open(config_path, "w")\<close> raises \<open>OSError\<close> when the file cannot be
  written; otherwise the file holds the dumped dict, which loads back as that dict.
\<close>

definition save_config :: "config \<Rightarrow> world \<Rightarrow> (exn + unit) \<times> world" where
  "save_config c w =
     (if cfg_writable w then (Inr (), w\<lparr>cfg_exists := True, cfg_content := Document c\<rparr>)
      else (Inl os_error, w))"

text \<open>
  \<open>get_saved_directory\<close>: \<open>config.get("working_directory")\<close>, returned when it is true and
  names a directory. \<open>Path(x)\<close> raises \<open>TypeError\<close> for an \<open>x\<close> that is not a string.
\<close>

definition get_saved_directory :: "world \<Rightarrow> exn + string option" where
  "get_saved_directory w =
     (case load_config w of
        Inl e \<Rightarrow> Inl e
      | Inr c \<Rightarrow>
         (case map_of c ''working_directory'' of
            None \<Rightarrow> Inr None
          | Some v \<Rightarrow>
             (if \<not> truthy v then Inr None
              else case v of
                     JStr s \<Rightarrow> (if is_dir w s then Inr (Some s) else Inr None)
                   | _ \<Rightarrow> Inl type_error)))"

definition save_directory :: "string \<Rightarrow> world \<Rightarrow> (exn + unit) \<times> world" where
  "save_directory d w =
     (case load_config w of
        Inl e \<Rightarrow> (Inl e, w)
      | Inr c \<Rightarrow> save_config (AList.update ''working_directory'' (JStr (resolve w d)) c) w)"

definition clear_directory :: "world \<Rightarrow> (exn + unit) \<times> world" where
  "clear_directory w =
     (case load_config w of
        Inl e \<Rightarrow> (Inl e, w)
      | Inr c \<Rightarrow> save_config (AList.delete ''working_directory'' c) w)"

section \<open>Module groq_client\<close>

text \<open>
  A chunk of the provider's stream is its list \<open>chunk.choices\<close>; of a choice only
  \<open>delta.content\<close> is read, a \<open>str\<close> or \<open>None\<close>.
\<close>

record choice =
  delta_content :: "string option"

type_synonym chunk = "choice list"

text \<open>
  What the provider does with one request: \<open>create\<close> raises, or it returns a stream of
  chunks that ends as \<open>stream_end\<close> says.
\<close>

datatype provider = CreateFails exn | Stream "chunk list" stream_end

definition DEFAULT_MODEL :: string where
  "DEFAULT_MODEL = ''llama-3.3-70b-versatile''"

text \<open>
  The body of the \<open>async for\<close>: a chunk yields \<open>chunk.choices[0].delta.content\<close> when
  \<open>chunk.choices\<close> and that content are both true.
\<close>

fun fragments :: "chunk list \<Rightarrow> string list" where
  "fragments [] = []"
| "fragments ([] # cs) = fragments cs"
| "fragments ((ch # chs) # cs) =
     (if truthy_str (delta_content ch) then the (delta_content ch) # fragments cs
      else fragments cs)"

text \<open>
  The chunks the condition of the loop rejects: \<open>chunk.choices\<close> is empty, or the
  content of its first choice is \<open>None\<close> or empty.
\<close>

fun filtered_out :: "chunk \<Rightarrow> bool" where
  "filtered_out [] = True"
| "filtered_out (ch # chs) = (\<not> truthy_str (delta_content ch))"

text \<open>
  One run of \<open>stream_completion\<close>, driven to its end by the consumer: the fragments it
  yielded, the messages it passed to \<open>log_callback\<close> (none without a callback), and the
  exception it raised, if any.
\<close>

record completion =
  yielded :: "string list"
  logged :: "string list"
  raised :: "exn option"

definition log_msgs :: "bool \<Rightarrow> string list \<Rightarrow> string list" where
  "log_msgs has_callback msgs = (if has_callback then msgs else [])"

text \<open>\<open>except Exception as e: log(f"Error: {e}"); raise\<close>.\<close>

definition on_error :: "exn \<Rightarrow> string list" where
  "on_error e = (if is_Exception e then [''Error: '' @ str_exn e] else [])"

definition stream_completion :: "string option \<Rightarrow> bool \<Rightarrow> provider \<Rightarrow> completion" where
  "stream_completion model has_callback p =
     (let m = (if truthy_str model then the model else DEFAULT_MODEL);
          calling = ''Calling Groq API (model: '' @ m @ '')...''
      in case p of
           CreateFails e \<Rightarrow>
             \<lparr>yielded = [], logged = log_msgs has_callback (calling # on_error e),
              raised = Some e\<rparr>
         | Stream cs Completed \<Rightarrow>
             \<lparr>yielded = fragments cs,
              logged = log_msgs has_callback [calling, ''Completion finished''],
              raised = None\<rparr>
         | Stream cs (Raised e) \<Rightarrow>
             \<lparr>yielded = fragments cs, logged = log_msgs has_callback (calling # on_error e),
              raised = Some e\<rparr>)"

text \<open>
  The three kinds of failure the specification names, read off the class of an
  exception: \<open>AuthenticationError\<close>, \<open>RateLimitError\<close>, and the connection and timeout
  errors of the provider's library. Any other exception has none of the three kinds.
\<close>

datatype failure_kind = AuthError | RateLimited | TransportError

fun failure_kind_of :: "exn \<Rightarrow> failure_kind option" where
  "failure_kind_of (Exception cls msg) =
     (if cls = ''AuthenticationError'' then Some AuthError
      else if cls = ''RateLimitError'' then Some RateLimited
      else if cls = ''APIConnectionError'' \<or> cls = ''APITimeoutError'' then Some TransportError
      else None)"
| "failure_kind_of KeyboardInterrupt = None"
| "failure_kind_of (SystemExit n) = None"

section \<open>Module config: the debounce interval\<close>

text \<open>
  Modelled from the spec: \<open>set_debounce_ms\<close>, which \<open>run_cli\<close> imports from module
  \<open>config\<close> and which \<open>config.py\<close> does not define. The specification describes the
  store as the "read/write of a saved working directory string and a debounce interval
  (milliseconds, clamped to [100, 5000]); persisted as a flat key/value document". The
  function is written like its sibling \<open>save_directory\<close>: load the document, set the
  key, save the document. The name of the key is not given; it is \<open>debounce_ms\<close> here.
\<close>

definition set_debounce_ms :: "int \<Rightarrow> world \<Rightarrow> (exn + unit) \<times> world" where
  "set_debounce_ms ms w =
     (case load_config w of
        Inl e \<Rightarrow> (Inl e, w)
      | Inr c \<Rightarrow> save_config (AList.update ''debounce_ms'' (JInt (max 100 (min 5000 ms))) c) w)"

section \<open>Module cli\<close>

text \<open>The parsed command line (\<open>argparse.Namespace\<close>).\<close>

record args =
  arg_prompt :: "string list"
  arg_directory :: "string option"
  arg_save_dir :: "string option"
  arg_show_config :: bool
  arg_tui :: bool
  arg_quiet :: bool
  arg_debounce :: "int option"

text \<open>The symbols of the messages that are not ASCII, as their UTF-8 bytes.\<close>

definition folder_icon :: string where
  "folder_icon = [CHR 0xF0, CHR 0x9F, CHR 0x93, CHR 0x81]"

definition check_mark :: string where
  "check_mark = [CHR 0xE2, CHR 0x9C, CHR 0x93]"

definition crystal_ball :: string where
  "crystal_ball = [CHR 0xF0, CHR 0x9F, CHR 0x94, CHR 0xAE]"

text \<open>\<open>" ".join(xs)\<close>.\<close>

fun join_sp :: "string list \<Rightarrow> string" where
  "join_sp [] = []"
| "join_sp [x] = x"
| "join_sp (x # y # ys) = x @ '' '' @ join_sp (y # ys)"

text \<open>
  \<open>s.strip()\<close>. A text is its UTF-8 bytes here, and \<open>str.strip()\<close> removes from both ends
  the characters Python counts as white space: U+0009 to U+000D, U+001C to U+0020,
  U+0085, U+00A0, U+1680, U+2000 to U+200A, U+2028, U+2029, U+202F, U+205F and U+3000.
  \<open>white_space\<close> lists their encodings. In UTF-8 no encoding of a character ends inside
  the encoding of another, so on the bytes of a text removing these encodings from the
  front and from the back removes exactly these characters.
\<close>

definition white_space :: "string list" where
  "white_space =
     [[CHR 0x09], [CHR 0x0A], [CHR 0x0B], [CHR 0x0C], [CHR 0x0D],
      [CHR 0x1C], [CHR 0x1D], [CHR 0x1E], [CHR 0x1F], [CHR 0x20],
      [CHR 0xC2, CHR 0x85], [CHR 0xC2, CHR 0xA0],
      [CHR 0xE1, CHR 0x9A, CHR 0x80],
      [CHR 0xE2, CHR 0x80, CHR 0x80], [CHR 0xE2, CHR 0x80, CHR 0x81],
      [CHR 0xE2, CHR 0x80, CHR 0x82], [CHR 0xE2, CHR 0x80, CHR 0x83],
      [CHR 0xE2, CHR 0x80, CHR 0x84], [CHR 0xE2, CHR 0x80, CHR 0x85],
      [CHR 0xE2, CHR 0x80, CHR 0x86], [CHR 0xE2, CHR 0x80, CHR 0x87],
      [CHR 0xE2, CHR 0x80, CHR 0x88], [CHR 0xE2, CHR 0x80, CHR 0x89],
      [CHR 0xE2, CHR 0x80, CHR 0x8A],
      [CHR 0xE2, CHR 0x80, CHR 0xA8], [CHR 0xE2, CHR 0x80, CHR 0xA9],
      [CHR 0xE2, CHR 0x80, CHR 0xAF], [CHR 0xE2, CHR 0x81, CHR 0x9F],
      [CHR 0xE3, CHR 0x80, CHR 0x80]]"

fun starts_with :: "string \<Rightarrow> string \<Rightarrow> bool" where
  "starts_with [] s = True"
| "starts_with (c # cs) [] = False"
| "starts_with (c # cs) (x # xs) = (c = x \<and> starts_with cs xs)"

text \<open>The text without the first of the given encodings it starts with, if there is one.\<close>

fun drop_one :: "string list \<Rightarrow> string \<Rightarrow> string option" where
  "drop_one [] s = None"
| "drop_one (ws # wss) s =
     (if ws \<noteq> [] \<and> starts_with ws s then Some (drop (length ws) s) else drop_one wss s)"

function strip_front :: "string list \<Rightarrow> string \<Rightarrow> string" where
  "strip_front wss s = (case drop_one wss s of None \<Rightarrow> s | Some t \<Rightarrow> strip_front wss t)"
  by pat_completeness auto
termination
proof (relation "measure (\<lambda>(wss, s). length s)")
  show "wf (measure (\<lambda>(wss, s). length s))" by simp
next
  fix wss :: "string list" and s t :: string
  assume d: "drop_one wss s = Some t"
  have le: "starts_with ws u \<Longrightarrow> length ws \<le> length u" for ws u
    by (induction ws u rule: starts_with.induct) auto
  have "drop_one wss s = Some t \<Longrightarrow> length t < length s"
  proof (induction wss)
    case Nil
    then show ?case by simp
  next
    case (Cons ws wss)
    show ?case
    proof (cases "ws \<noteq> [] \<and> starts_with ws s")
      case True
      with Cons.prems have t: "t = drop (length ws) s" by simp
      from True have "length ws \<le> length s" by (auto dest: le)
      with t True show ?thesis by (cases ws) auto
    next
      case False
      with Cons show ?thesis by auto
    qed
  qed
  with d show "((wss, t), (wss, s)) \<in> measure (\<lambda>(wss, s). length s)" by simp
qed

declare strip_front.simps [simp del]

definition strip :: "string \<Rightarrow> string" where
  "strip s = rev (strip_front (map rev white_space) (rev (strip_front white_space s)))"

definition get_working_directory :: "world \<Rightarrow> exn + string" where
  "get_working_directory w =
     (case get_saved_directory w of
        Inl e \<Rightarrow> Inl e
      | Inr saved_dir \<Rightarrow>
         (if truthy_str saved_dir then Inr (the saved_dir)
          else if truthy_str (magic_prompt_dir w)
                  \<and> is_dir w (expanduser w (the (magic_prompt_dir w)))
               then Inr (expanduser w (the (magic_prompt_dir w)))
          else Inr (cwd w)))"

definition get_prompt_from_input :: "args \<Rightarrow> world \<Rightarrow> string option" where
  "get_prompt_from_input a w =
     (if arg_prompt a \<noteq> [] then Some (join_sp (arg_prompt a))
      else if \<not> stdin_isatty w then Some (strip (stdin_text w))
      else None)"

text \<open>The scanner's log callback of \<open>run_headless\<close>: each message goes to \<open>stderr\<close>.\<close>

fun log_lines :: "string list \<Rightarrow> world \<Rightarrow> world" where
  "log_lines [] w = w"
| "log_lines (m # ms) w = log_lines ms (print_err (''   '' @ m @ newline) w)"

text \<open>
  The loop \<open>async for chunk in enricher.enrich(prompt)\<close> over the chunks the stream
  yields: \<open>result += chunk\<close>, and \<open>print(chunk, end="")\<close> unless quiet.
\<close>

fun consume :: "bool \<Rightarrow> string list \<Rightarrow> string \<Rightarrow> world \<Rightarrow> string \<times> world" where
  "consume q [] result w = (result, w)"
| "consume q (chunk # chunks) result w =
     consume q chunks (result @ chunk) (if q then w else print_out chunk w)"

definition run_headless :: "string \<Rightarrow> string \<Rightarrow> bool \<Rightarrow> world \<Rightarrow> (exn + string) \<times> world" where
  "run_headless p d q w =
     (let w1 = (if q then w else print_err (folder_icon @ '' Scanning: '' @ d @ newline) w);
          ctx = scan_project w d;
          w2 = (if q then w1 else log_lines (scan_log ctx) w1);
          w3 = (if q then w2
                else print_err (check_mark @ '' Found '' @ str_nat (total_files ctx)
                       @ '' files, '' @ str_nat (n_signatures ctx) @ '' analyzed'' @ newline) w2)
      in if \<not> truthy_str (groq_api_key w) then
           (Inl (SystemExit 1),
            print_err (''Error: GROQ_API_KEY not set. Set it in environment or .env file.''
                       @ newline) w3)
         else
           (let w4 = (if q then w3
                      else print_err (crystal_ball @ '' Enriching prompt...'' @ newline) w3);
                (result, w5) =
                   consume q (fst (enrich w p)) [] (w4\<lparr>dispatched := dispatched w4 @ [p]\<rparr>)
            in case snd (enrich w p) of
                 Completed \<Rightarrow> (Inr result, if q then w5 else print_out newline w5)
               | Raised e \<Rightarrow> (Inl e, w5)))"

text \<open>\<open>tui_main()\<close> of module \<open>app\<close>: the interactive application runs.\<close>

definition tui_main :: "world \<Rightarrow> world" where
  "tui_main w = w\<lparr>tui_runs := Suc (tui_runs w)\<rparr>"

text \<open>The block \<open># Handle --show-config\<close> of \<open>run_cli\<close>.\<close>

definition handle_show_config :: "world \<Rightarrow> (exn + unit) \<times> world" where
  "handle_show_config w =
     (case load_config w of
        Inl e \<Rightarrow> (Inl e, w)
      | Inr c \<Rightarrow>
         (let w1 = print_out (''Config file: '' @ cfg_path w @ newline) w
          in (Inr (), if c \<noteq> [] then print_out (json_dumps w c @ newline) w1
                      else print_out (''No configuration saved.'' @ newline) w1)))"

text \<open>The block \<open># Handle --save-dir\<close> of \<open>run_cli\<close>.\<close>

definition handle_save_dir :: "string \<Rightarrow> world \<Rightarrow> (exn + unit) \<times> world" where
  "handle_save_dir s w =
     (let d = expanduser w s
      in if \<not> is_dir w d then
           (Inl (SystemExit 1), print_err (''Error: Directory not found: '' @ d @ newline) w)
         else case save_directory d w of
                (Inl e, w1) \<Rightarrow> (Inl e, w1)
              | (Inr u, w1) \<Rightarrow>
                  (Inr (), print_out (check_mark @ '' Saved default directory: '' @ d @ newline) w1))"

text \<open>
  The block \<open># Handle --debounce\<close> of \<open>run_cli\<close>, up to its \<open>print\<close>: nothing happens
  without the flag.
\<close>

definition handle_debounce :: "args \<Rightarrow> world \<Rightarrow> (exn + unit) \<times> world" where
  "handle_debounce a w =
     (case arg_debounce a of
        None \<Rightarrow> (Inr (), w)
      | Some ms \<Rightarrow>
         (case set_debounce_ms ms w of
            (Inl e, w1) \<Rightarrow> (Inl e, w1)
          | (Inr u, w1) \<Rightarrow>
              (Inr (), print_out (check_mark @ '' Debounce time set to: '' @ str_int ms @ ''ms''
                                  @ newline) w1)))"

text \<open>
  The two handlers of the \<open>try\<close> of \<open>run_cli\<close>: \<open>except KeyboardInterrupt\<close> and
  \<open>except Exception as e\<close>. A \<open>SystemExit\<close> passes both.
\<close>

fun handlers :: "exn \<Rightarrow> world \<Rightarrow> (exn + unit) \<times> world" where
  "handlers KeyboardInterrupt w =
     (Inl (SystemExit 130), print_err (newline @ ''Cancelled.'' @ newline) w)"
| "handlers (Exception cls msg) w =
     (Inl (SystemExit 1), print_err (''Error: '' @ msg @ newline) w)"
| "handlers (SystemExit n) w = (Inl (SystemExit n), w)"

text \<open>
  The inner \<open>try\<close> of \<open>run_cli\<close>: \<open>pbcopy\<close> is run on the result; an \<open>Exception\<close> is
  caught there and reported unless quiet.
\<close>

definition copy_to_clipboard :: "bool \<Rightarrow> string \<Rightarrow> world \<Rightarrow> (exn + unit) \<times> world" where
  "copy_to_clipboard q result w =
     (case pbcopy w result of
        None \<Rightarrow>
          (Inr (), if q then w
                   else print_err (newline @ check_mark @ '' Copied to clipboard!'' @ newline) w)
      | Some e \<Rightarrow>
          (if is_Exception e then
             (Inr (), if q then w
                      else print_err (newline @ ''Note: Could not copy to clipboard: ''
                                      @ str_exn e @ newline) w)
           else (Inl e, w)))"

text \<open>
  The blocks \<open># Get directory\<close> and \<open># Run headless enrichment\<close> of \<open>run_cli\<close>, for
  the prompt \<open>p\<close>; \<open>project_directory\<close> is
  \<open>args.directory or get_working_directory()\<close>.
\<close>

definition project_directory :: "args \<Rightarrow> world \<Rightarrow> exn + string" where
  "project_directory a w =
     (if truthy_str (arg_directory a) then Inr (the (arg_directory a))
      else get_working_directory w)"

definition run_one_shot :: "string \<Rightarrow> args \<Rightarrow> world \<Rightarrow> (exn + unit) \<times> world" where
  "run_one_shot p a w =
     (case project_directory a w of
        Inl e \<Rightarrow> (Inl e, w)
      | Inr d \<Rightarrow>
         (if \<not> is_dir w d then
            (Inl (SystemExit 1), print_err (''Error: Directory not found: '' @ d @ newline) w)
          else case run_headless p d (arg_quiet a) w of
                 (Inl e, w1) \<Rightarrow> handlers e w1
               | (Inr result, w1) \<Rightarrow>
                  (case copy_to_clipboard (arg_quiet a) result
                          (if arg_quiet a then print_out (result @ newline) w1 else w1) of
                     (Inl e, w2) \<Rightarrow> handlers e w2
                   | (Inr u, w2) \<Rightarrow> (Inr (), w2))))"

definition run_cli :: "args \<Rightarrow> world \<Rightarrow> (exn + unit) \<times> world" where
  "run_cli a w =
     (if arg_show_config a then handle_show_config w
      else if truthy_str (arg_save_dir a) then handle_save_dir (the (arg_save_dir a)) w
      else case handle_debounce a w of
             (Inl e, w1) \<Rightarrow> (Inl e, w1)
           | (Inr u, w1) \<Rightarrow>
              (if arg_debounce a \<noteq> None \<and> \<not> arg_tui a \<and> arg_prompt a = [] then (Inr (), w1)
               else if arg_tui a then (Inr (), tui_main w1)
               else case get_prompt_from_input a w1 of
                      None \<Rightarrow> (Inr (), tui_main w1)
                    | Some p \<Rightarrow>
                        (if p = [] then (Inr (), tui_main w1) else run_one_shot p a w1)))"

text \<open>
  The status the process ends with, as the parent process reads it (the \<open>returncode\<close>
  of \<open>subprocess\<close>): 0 when \<open>run_cli\<close> returns; the low eight bits of the code of a
  \<open>SystemExit\<close>; 1 for an exception nobody caught; and for a \<open>KeyboardInterrupt\<close>
  nobody caught the process dies by the signal SIGINT, which reads as -2.
\<close>

fun exit_status :: "exn + unit \<Rightarrow> int" where
  "exit_status (Inr u) = 0"
| "exit_status (Inl (SystemExit n)) = n mod 256"
| "exit_status (Inl (Exception cls msg)) = 1"
| "exit_status (Inl KeyboardInterrupt) = - 2"

text \<open>A world to run the program in: a project at \<open>/home/u/proj\<close>, no configuration yet.\<close>

definition example_world :: world where
  "example_world =
     \<lparr>cfg_path = ''/home/u/.config/magic-prompt/config.json'',
      cfg_exists = False, cfg_readable = True, cfg_writable = True, cfg_content = Malformed,
      is_dir = (\<lambda>p. p = ''/home/u/proj'' \<or> p = ''proj''),
      realpath = (\<lambda>p. if p = ''proj'' then ''home/u/proj'' else tl p),
      expanduser = (\<lambda>p. p),
      cwd = ''/home/u'',
      groq_api_key = Some ''gsk_example'',
      magic_prompt_dir = None,
      stdin_isatty = True,
      stdin_text = [],
      scan_project = (\<lambda>d. \<lparr>scan_log = [], total_files = 2, n_signatures = 3\<rparr>),
      enrich = (\<lambda>p. ([''Hello'', '' world''], Completed)),
      pbcopy = (\<lambda>t. None),
      json_dumps = (\<lambda>c. ''{}''),
      stdout = [], stderr = [], dispatched = [], tui_runs = 0\<rparr>"

definition example_args :: args where
  "example_args =
     \<lparr>arg_prompt = [''add'', ''logging''], arg_directory = Some ''proj'', arg_save_dir = None,
      arg_show_config = False, arg_tui = False, arg_quiet = False, arg_debounce = None\<rparr>"

text \<open>
  Piped input: a prompt inside ASCII white space; the same prompt between a no-break
  space (U+00A0) and an ideographic space (U+3000); and a no-break space alone.
\<close>

definition piped_ascii :: string where
  "piped_ascii = ''  fix the bug '' @ newline"

definition piped_unicode :: string where
  "piped_unicode = [CHR 0xC2, CHR 0xA0] @ ''fix the bug'' @ [CHR 0xE3, CHR 0x80, CHR 0x80]"

definition piped_blank :: string where
  "piped_blank = [CHR 0xC2, CHR 0xA0]"

section \<open>The configuration store\<close>

lemma load_config_degrades:
  "\<not> cfg_exists w \<or> \<not> cfg_readable w \<or> cfg_content w = Malformed \<Longrightarrow> load_config w = Inr []"
  by (auto simp: load_config_def)

lemma load_config_after_save:
  "cfg_writable w \<Longrightarrow>
   load_config (w\<lparr>cfg_exists := True, cfg_content := Document c'\<rparr>)
     = (if cfg_readable w then Inr c' else Inr [])"
  by (simp add: load_config_def)

lemma load_config_unreadable:
  "\<not> cfg_readable w \<Longrightarrow> load_config w = Inr c \<Longrightarrow> c = []"
  by (auto simp: load_config_def split: if_splits)

text \<open>
  C5. The claim: whatever the state of the configuration file, missing, unreadable or
  not valid JSON, \<open>load_config\<close> returns the empty dict and raises nothing. A missing
  file, a file that cannot be opened and a text that is not JSON do give the empty dict
  (\<open>load_config_degrades\<close>). A file whose bytes are not UTF-8 is not valid JSON either,
  and there \<open>load_config\<close> raises \<open>UnicodeDecodeError\<close>, which its handler does not
  name.
\<close>

theorem load_config_undecodable_raises:
  "load_config (example_world\<lparr>cfg_exists := True, cfg_content := Undecodable\<rparr>)
     = Inl (Exception ''UnicodeDecodeError'' ''utf-8 codec cannot decode byte'')"
  by (simp add: load_config_def example_world_def unicode_decode_error_def)

text \<open>
  C6. Round trip of the saved working directory. Where the configuration file can be
  read and written and loads, and \<open>d\<close> names an existing directory (as given and in its
  resolved form, which name the same directory), \<open>save_directory d\<close> returns and
  \<open>get_saved_directory\<close> then returns the resolved absolute form of \<open>d\<close>. And
  \<open>get_saved_directory\<close> returns \<open>None\<close> whenever the stored path is absent or does not
  name an existing directory.
\<close>

theorem save_directory_round_trip:
  "(cfg_readable w \<and> cfg_writable w \<and> load_config w = Inr c \<and> is_dir w d
      \<and> is_dir w (resolve w d)
      \<longrightarrow> (\<exists>w'. save_directory d w = (Inr (), w')
                \<and> get_saved_directory w' = Inr (Some (resolve w d))))
   \<and> (load_config w = Inr c
        \<and> (map_of c ''working_directory'' = None
             \<or> (\<exists>s. map_of c ''working_directory'' = Some (JStr s) \<and> \<not> is_dir w s))
      \<longrightarrow> get_saved_directory w = Inr None)"
proof (intro conjI impI)
  assume h: "cfg_readable w \<and> cfg_writable w \<and> load_config w = Inr c \<and> is_dir w d
      \<and> is_dir w (resolve w d)"
  let ?c = "AList.update ''working_directory'' (JStr (resolve w d)) c"
  let ?w = "w\<lparr>cfg_exists := True, cfg_content := Document ?c\<rparr>"
  from h have s: "save_directory d w = (Inr (), ?w)"
    by (simp add: save_directory_def save_config_def)
  from h have l: "load_config ?w = Inr ?c"
    by (simp add: load_config_def)
  have m: "map_of ?c ''working_directory'' = Some (JStr (resolve w d))"
    by (simp add: update_conv')
  have n: "resolve w d \<noteq> []"
    by (simp add: resolve_def)
  from h have "get_saved_directory ?w = Inr (Some (resolve w d))"
    unfolding get_saved_directory_def l using m n by simp
  with s show "\<exists>w'. save_directory d w = (Inr (), w')
                 \<and> get_saved_directory w' = Inr (Some (resolve w d))"
    by blast
next
  assume "load_config w = Inr c
        \<and> (map_of c ''working_directory'' = None
             \<or> (\<exists>s. map_of c ''working_directory'' = Some (JStr s) \<and> \<not> is_dir w s))"
  then show "get_saved_directory w = Inr None"
    by (auto simp: get_saved_directory_def)
qed

theorem save_directory_round_trip_witness:
  "get_saved_directory (snd (save_directory ''proj'' example_world)) = Inr (Some ''/home/u/proj'')
   \<and> get_saved_directory example_world = Inr None"
  using save_directory_round_trip [of example_world "[]" "''proj''"]
  by (auto simp: example_world_def load_config_def resolve_def)

text \<open>
  C9. \<open>save_directory\<close> and \<open>clear_directory\<close> change the key \<open>working_directory\<close> only:
  whatever the configuration was before the call, every other key has after the call
  the value it had before (and a key that was absent stays absent). When the
  configuration does not load, the call raises and the file is as it was.
\<close>

theorem directory_updates_frame:
  "(load_config w = Inr c \<and> k \<noteq> ''working_directory''
      \<longrightarrow> (\<exists>c'. load_config (snd (save_directory d w)) = Inr c' \<and> map_of c' k = map_of c k)
        \<and> (\<exists>c'. load_config (snd (clear_directory w)) = Inr c' \<and> map_of c' k = map_of c k))
   \<and> (load_config w = Inl e
      \<longrightarrow> snd (save_directory d w) = w \<and> snd (clear_directory w) = w)"
proof (intro conjI impI)
  assume h: "load_config w = Inr c \<and> k \<noteq> ''working_directory''"
  show "\<exists>c'. load_config (snd (save_directory d w)) = Inr c' \<and> map_of c' k = map_of c k"
  proof (cases "cfg_writable w")
    case False
    with h show ?thesis by (simp add: save_directory_def save_config_def)
  next
    case True
    show ?thesis
    proof (cases "cfg_readable w")
      case True
      with h \<open>cfg_writable w\<close> show ?thesis
        by (simp add: save_directory_def save_config_def load_config_after_save update_conv')
    next
      case False
      with h have "c = []" using load_config_unreadable by blast
      with h False \<open>cfg_writable w\<close> show ?thesis
        by (simp add: save_directory_def save_config_def load_config_after_save)
    qed
  qed
  show "\<exists>c'. load_config (snd (clear_directory w)) = Inr c' \<and> map_of c' k = map_of c k"
  proof (cases "cfg_writable w")
    case False
    with h show ?thesis by (simp add: clear_directory_def save_config_def)
  next
    case True
    show ?thesis
    proof (cases "cfg_readable w")
      case True
      with h \<open>cfg_writable w\<close> show ?thesis
        by (simp add: clear_directory_def save_config_def load_config_after_save delete_conv')
    next
      case False
      with h have "c = []" using load_config_unreadable by blast
      with h False \<open>cfg_writable w\<close> show ?thesis
        by (simp add: clear_directory_def save_config_def load_config_after_save)
    qed
  qed
next
  assume "load_config w = Inl e"
  then show "snd (save_directory d w) = w" by (simp add: save_directory_def)
next
  assume "load_config w = Inl e"
  then show "snd (clear_directory w) = w" by (simp add: clear_directory_def)
qed

theorem directory_updates_frame_witness:
  "(\<exists>c'. load_config (snd (save_directory ''proj''
             (example_world\<lparr>cfg_exists := True,
                cfg_content := Document [(''debounce_ms'', JInt 300),
                                         (''working_directory'', JStr ''/tmp'')]\<rparr>))) = Inr c'
         \<and> map_of c' ''debounce_ms'' = Some (JInt 300))
   \<and> (\<exists>c'. load_config (snd (clear_directory
             (example_world\<lparr>cfg_exists := True,
                cfg_content := Document [(''debounce_ms'', JInt 300),
                                         (''working_directory'', JStr ''/tmp'')]\<rparr>))) = Inr c'
         \<and> map_of c' ''debounce_ms'' = Some (JInt 300))
   \<and> snd (clear_directory (example_world\<lparr>cfg_exists := True, cfg_content := Undecodable\<rparr>))
       = example_world\<lparr>cfg_exists := True, cfg_content := Undecodable\<rparr>"
  using directory_updates_frame
     [of "example_world\<lparr>cfg_exists := True,
                cfg_content := Document [(''debounce_ms'', JInt 300),
                                         (''working_directory'', JStr ''/tmp'')]\<rparr>"
         "[(''debounce_ms'', JInt 300), (''working_directory'', JStr ''/tmp'')]"
         "''debounce_ms''" "''proj''" unicode_decode_error]
    directory_updates_frame
     [of "example_world\<lparr>cfg_exists := True, cfg_content := Undecodable\<rparr>"
         "[]" "''debounce_ms''" "''proj''" unicode_decode_error]
  by (simp add: example_world_def load_config_def)

section \<open>The completion stream client\<close>

lemma fragments_nonempty: "s \<in> set (fragments cs) \<Longrightarrow> s \<noteq> []"
proof (induction cs rule: fragments.induct)
  case 1
  then show ?case by simp
next
  case (2 cs)
  then show ?case by simp
next
  case (3 ch chs cs)
  then show ?case
    by (cases "delta_content ch") (auto split: if_splits)
qed

lemma fragments_filter:
  "fragments cs = map (\<lambda>c. the (delta_content (hd c))) (filter (\<lambda>c. \<not> filtered_out c) cs)"
  by (induction cs rule: fragments.induct) auto

lemma yielded_fragments:
  "yielded (stream_completion m cb p)
     = (case p of CreateFails e \<Rightarrow> [] | Stream cs fin \<Rightarrow> fragments cs)"
  by (simp add: stream_completion_def Let_def split: provider.splits stream_end.splits)

text \<open>
  C10. Every fragment \<open>stream_completion\<close> yields is a non-empty string: what it yields
  from a stream are the contents of the first choices of the chunks that are not
  filtered out, in the order of the stream; a chunk with no choices, or whose content is
  \<open>None\<close> or empty, yields nothing.
\<close>

theorem yielded_fragments_nonempty:
  "(\<forall>s \<in> set (yielded (stream_completion m cb p)). s \<noteq> [])
   \<and> yielded (stream_completion m cb (Stream cs fin))
       = map (\<lambda>c. the (delta_content (hd c))) (filter (\<lambda>c. \<not> filtered_out c) cs)"
proof
  show "\<forall>s \<in> set (yielded (stream_completion m cb p)). s \<noteq> []"
    by (cases p) (auto simp: yielded_fragments dest: fragments_nonempty)
  show "yielded (stream_completion m cb (Stream cs fin))
       = map (\<lambda>c. the (delta_content (hd c))) (filter (\<lambda>c. \<not> filtered_out c) cs)"
    by (simp add: yielded_fragments fragments_filter)
qed

theorem yielded_fragments_nonempty_witness:
  "yielded (stream_completion None False
          (Stream [[], [\<lparr>delta_content = None\<rparr>], [\<lparr>delta_content = Some ''Hello''\<rparr>],
                   [\<lparr>delta_content = Some []\<rparr>],
                   [\<lparr>delta_content = Some '' world''\<rparr>, \<lparr>delta_content = Some ''x''\<rparr>]]
             Completed))
     = [''Hello'', '' world'']
   \<and> ''Hello'' \<noteq> [] \<and> '' world'' \<noteq> []"
  using yielded_fragments_nonempty [of None False
          "Stream [[], [\<lparr>delta_content = None\<rparr>], [\<lparr>delta_content = Some ''Hello''\<rparr>],
                   [\<lparr>delta_content = Some []\<rparr>],
                   [\<lparr>delta_content = Some '' world''\<rparr>, \<lparr>delta_content = Some ''x''\<rparr>]]
             Completed"
          "[[], [\<lparr>delta_content = None\<rparr>], [\<lparr>delta_content = Some ''Hello''\<rparr>],
                   [\<lparr>delta_content = Some []\<rparr>],
                   [\<lparr>delta_content = Some '' world''\<rparr>, \<lparr>delta_content = Some ''x''\<rparr>]]"
          Completed]
  by simp

text \<open>
  C3, as the code has it. \<open>stream_completion\<close> does not classify a failure. Whether
  the provider raises when the request is created or while the stream is read, the
  exception the caller gets is the provider's exception itself, whatever its class, after
  the fragments of the chunks read so far. Before it is re-raised an \<open>Exception\<close> is
  logged as \<open>Error: \<close> and its text, after the message that announced the call, when
  there is a log callback; nothing is logged without one. So the provider's
  authentication, rate limit and transport errors reach the caller as themselves, and so
  does every other error.
\<close>

theorem stream_completion_reraises:
  "raised (stream_completion m cb (CreateFails e)) = Some e
   \<and> raised (stream_completion m cb (Stream cs (Raised e))) = Some e
   \<and> raised (stream_completion m cb (Stream cs Completed)) = None
   \<and> yielded (stream_completion m cb (CreateFails e)) = []
   \<and> yielded (stream_completion m cb (Stream cs (Raised e))) = fragments cs
   \<and> logged (stream_completion m cb (CreateFails e))
       = (if cb then
            (''Calling Groq API (model: '' @ (if truthy_str m then the m else DEFAULT_MODEL)
               @ '')...'')
            # (if is_Exception e then [''Error: '' @ str_exn e] else [])
          else [])
   \<and> logged (stream_completion m cb (Stream cs (Raised e)))
       = (if cb then
            (''Calling Groq API (model: '' @ (if truthy_str m then the m else DEFAULT_MODEL)
               @ '')...'')
            # (if is_Exception e then [''Error: '' @ str_exn e] else [])
          else [])
   \<and> logged (stream_completion m cb (Stream cs Completed))
       = (if cb then
            [''Calling Groq API (model: '' @ (if truthy_str m then the m else DEFAULT_MODEL)
               @ '')...'',
             ''Completion finished'']
          else [])"
  by (simp add: stream_completion_def Let_def log_msgs_def on_error_def)

text \<open>
  C3, as the claim has it, fails: a request the provider rejects as a bad request fails
  with an error that is none of the three kinds.
\<close>

theorem stream_completion_other_kind:
  "raised (stream_completion None False
             (CreateFails (Exception ''BadRequestError'' ''model not found'')))
     = Some (Exception ''BadRequestError'' ''model not found'')
   \<and> failure_kind_of (Exception ''BadRequestError'' ''model not found'') = None"
  by (simp add: stream_completion_def Let_def)

section \<open>One-shot mode\<close>

lemma consume_eq:
  "consume q cs r w = (r @ concat cs, if q then w else w\<lparr>stdout := stdout w @ cs\<rparr>)"
  by (induction cs arbitrary: r w) (auto simp: print_out_def)

lemma log_lines_eq:
  "log_lines ms w = w\<lparr>stderr := stderr w @ map (\<lambda>m. ''   '' @ m @ newline) ms\<rparr>"
  by (induction ms arbitrary: w) (auto simp: print_err_def)

text \<open>
  C1. For every prompt and every finite sequence of chunks the enricher's stream yields
  before it completes, \<open>run_headless\<close> returns the concatenation of the chunks in the
  order they were yielded. Unless quiet, it has then written to standard output those
  chunks, one write each and in that order, and after them the final newline; when
  quiet, it has written nothing there.
\<close>

theorem run_headless_concat:
  assumes "truthy_str (groq_api_key w)" and "enrich w p = (chunks, Completed)"
  shows "\<exists>w'. run_headless p d q w = (Inr (concat chunks), w')
              \<and> stdout w' = stdout w @ (if q then [] else chunks @ [newline])"
  using assms
  by (simp add: run_headless_def Let_def consume_eq log_lines_eq print_err_def print_out_def)

theorem run_headless_concat_witness:
  "fst (run_headless ''add logging'' ''proj'' False example_world) = Inr ''Hello world''
   \<and> stdout (snd (run_headless ''add logging'' ''proj'' False example_world))
       = [''Hello'', '' world'', newline]"
  using run_headless_concat
    [of example_world "''add logging''" "[''Hello'', '' world'']" "''proj''" False]
  by (auto simp: example_world_def)

lemma run_headless_no_key:
  assumes "\<not> truthy_str (groq_api_key w)"
  shows "fst (run_headless p d q w) = Inl (SystemExit 1)"
    and "dispatched (snd (run_headless p d q w)) = dispatched w"
    and "stdout (snd (run_headless p d q w)) = stdout w"
    and "last (stderr (snd (run_headless p d q w)))
           = ''Error: GROQ_API_KEY not set. Set it in environment or .env file.'' @ newline"
  using assms
  by (simp_all add: run_headless_def Let_def log_lines_eq print_err_def)

lemma run_headless_key:
  assumes "truthy_str (groq_api_key w)"
  shows "fst (run_headless p d q w)
           = (case snd (enrich w p) of Completed \<Rightarrow> Inr (concat (fst (enrich w p)))
              | Raised e \<Rightarrow> Inl e)"
    and "stdout (snd (run_headless p d q w))
           = stdout w @ (if q then [] else fst (enrich w p)
               @ (case snd (enrich w p) of Completed \<Rightarrow> [newline] | Raised e \<Rightarrow> []))"
    and "dispatched (snd (run_headless p d q w)) = dispatched w @ [p]"
  using assms
  by (simp_all add: run_headless_def Let_def consume_eq log_lines_eq print_err_def print_out_def
        split: stream_end.splits)

lemma run_headless_frame:
  "pbcopy (snd (run_headless p d q w)) = pbcopy w"
  "cfg_content (snd (run_headless p d q w)) = cfg_content w"
  "tui_runs (snd (run_headless p d q w)) = tui_runs w"
  by (simp_all add: run_headless_def Let_def consume_eq log_lines_eq print_err_def print_out_def
        split: stream_end.splits)

lemma handlers_frame:
  "cfg_content (snd (handlers e w)) = cfg_content w"
  "stdout (snd (handlers e w)) = stdout w"
  "dispatched (snd (handlers e w)) = dispatched w"
  by (cases e; simp add: print_err_def)+

lemma handlers_result:
  "fst (handlers e w)
     = (case e of KeyboardInterrupt \<Rightarrow> Inl (SystemExit 130) | SystemExit n \<Rightarrow> Inl (SystemExit n)
        | Exception c m \<Rightarrow> Inl (SystemExit 1))"
  by (cases e) simp_all

lemma handlers_stderr:
  "stderr (snd (handlers e w))
     = stderr w @ (case e of KeyboardInterrupt \<Rightarrow> [newline @ ''Cancelled.'' @ newline]
                   | SystemExit n \<Rightarrow> []
                   | Exception c m \<Rightarrow> [''Error: '' @ m @ newline])"
  by (cases e) (simp_all add: print_err_def)

lemma copy_frame:
  "cfg_content (snd (copy_to_clipboard q r w)) = cfg_content w"
  "stdout (snd (copy_to_clipboard q r w)) = stdout w"
  "dispatched (snd (copy_to_clipboard q r w)) = dispatched w"
  by (simp_all add: copy_to_clipboard_def print_err_def split: option.splits)

lemma run_one_shot_cfg:
  "cfg_content (snd (run_one_shot p a w)) = cfg_content w"
  by (simp add: run_one_shot_def case_prod_beta print_err_def print_out_def handlers_frame
      copy_frame run_headless_frame split: sum.splits)

text \<open>With a prompt that is not empty and no other mode chosen, \<open>run_cli\<close> runs one shot.\<close>

lemma run_cli_one_shot:
  assumes "\<not> arg_show_config a" and "\<not> truthy_str (arg_save_dir a)"
    and "handle_debounce a w = (Inr (), w1)"
    and "arg_debounce a = None \<or> arg_prompt a \<noteq> []"
    and "\<not> arg_tui a"
    and "get_prompt_from_input a w1 = Some p" and "p \<noteq> []"
  shows "run_cli a w = run_one_shot p a w1"
  using assms by (auto simp: run_cli_def)

lemma run_one_shot_result:
  assumes "project_directory a w = Inr d"
  shows "fst (run_one_shot p a w) =
     (if \<not> is_dir w d then Inl (SystemExit 1)
      else if \<not> truthy_str (groq_api_key w) then Inl (SystemExit 1)
      else case snd (enrich w p) of
             Raised e \<Rightarrow>
               (case e of KeyboardInterrupt \<Rightarrow> Inl (SystemExit 130)
                | SystemExit n \<Rightarrow> Inl (SystemExit n)
                | Exception c m \<Rightarrow> Inl (SystemExit 1))
           | Completed \<Rightarrow>
               (case pbcopy w (concat (fst (enrich w p))) of
                  None \<Rightarrow> Inr ()
                | Some e \<Rightarrow>
                    (case e of KeyboardInterrupt \<Rightarrow> Inl (SystemExit 130)
                     | SystemExit n \<Rightarrow> Inl (SystemExit n)
                     | Exception c m \<Rightarrow> Inr ())))"
proof (cases "is_dir w d")
  case False
  with assms show ?thesis by (simp add: run_one_shot_def)
next
  case d: True
  show ?thesis
  proof (cases "truthy_str (groq_api_key w)")
    case False
    with assms d show ?thesis
      by (simp add: run_one_shot_def case_prod_beta run_headless_no_key handlers_result
          split: sum.splits)
  next
    case k: True
    show ?thesis
    proof (cases "snd (enrich w p)")
      case (Raised e)
      with assms d k show ?thesis
        by (simp add: run_one_shot_def case_prod_beta run_headless_key handlers_result
            split: sum.splits)
    next
      case Completed
      with assms d k show ?thesis
        by (simp add: run_one_shot_def case_prod_beta run_headless_key run_headless_frame
            handlers_result copy_to_clipboard_def print_out_def print_err_def
            split: sum.splits option.splits exn.splits)
    qed
  qed
qed

lemma run_one_shot_no_directory:
  assumes "project_directory a w = Inr d" and "\<not> is_dir w d"
  shows "dispatched (snd (run_one_shot p a w)) = dispatched w"
    and "last (stderr (snd (run_one_shot p a w)))
           = ''Error: Directory not found: '' @ d @ newline"
  using assms by (simp_all add: run_one_shot_def print_err_def)

lemma run_one_shot_stream_raises:
  assumes "project_directory a w = Inr d" and "is_dir w d" and "truthy_str (groq_api_key w)"
    and "snd (enrich w p) = Raised e"
  shows "stderr (snd (run_one_shot p a w))
           = stderr (snd (run_headless p d (arg_quiet a) w))
             @ (case e of KeyboardInterrupt \<Rightarrow> [newline @ ''Cancelled.'' @ newline]
                | SystemExit n \<Rightarrow> []
                | Exception c m \<Rightarrow> [''Error: '' @ m @ newline])"
  using assms
  by (simp add: run_one_shot_def case_prod_beta run_headless_key handlers_stderr
      split: sum.splits)

lemma run_one_shot_no_key:
  assumes "project_directory a w = Inr d" and "is_dir w d" and "\<not> truthy_str (groq_api_key w)"
  shows "dispatched (snd (run_one_shot p a w)) = dispatched w"
    and "last (stderr (snd (run_one_shot p a w)))
           = ''Error: GROQ_API_KEY not set. Set it in environment or .env file.'' @ newline"
  using assms
  by (simp_all add: run_one_shot_def case_prod_beta run_headless_no_key handlers_frame
      split: sum.splits)

lemma run_one_shot_success:
  assumes "project_directory a w = Inr d" and "is_dir w d" and "truthy_str (groq_api_key w)"
    and "enrich w p = (chunks, Completed)"
    and "pbcopy w (concat chunks) = None \<or> pbcopy w (concat chunks) = Some (Exception cls msg)"
  shows "fst (run_one_shot p a w) = Inr ()"
    and "stdout (snd (run_one_shot p a w))
           = stdout w @ (if arg_quiet a then [concat chunks @ newline] else chunks @ [newline])"
    and "stderr (snd (run_one_shot p a w))
           = stderr (snd (run_headless p d (arg_quiet a) w))
             @ (if arg_quiet a then []
                else [case pbcopy w (concat chunks) of
                        None \<Rightarrow> newline @ check_mark @ '' Copied to clipboard!'' @ newline
                      | Some e \<Rightarrow> newline @ ''Note: Could not copy to clipboard: ''
                                    @ str_exn e @ newline])"
  using assms
  by (auto simp: run_one_shot_def case_prod_beta run_headless_key run_headless_frame
      copy_to_clipboard_def print_out_def print_err_def split: sum.splits)

text \<open>
  C4. How a one-shot run ends, which starts in the world \<open>w1\<close> that the \<open>--debounce\<close>
  block leaves, with the prompt \<open>p\<close> and the project directory \<open>d\<close>.
  \<^item> When \<open>d\<close> is not a directory: \<open>sys.exit(1)\<close>, after the message that the directory
    was not found; nothing is dispatched.
  \<^item> When \<open>GROQ_API_KEY\<close> is missing: \<open>sys.exit(1)\<close>; no prompt has been dispatched to
    the enricher and the last line on \<open>stderr\<close> is the error message.
  \<^item> When the stream raises an \<open>Exception\<close>: the handler prints \<open>Error: \<close> and its text
    and calls \<open>sys.exit(1)\<close>.
  \<^item> When it raises \<open>KeyboardInterrupt\<close>: the handler prints \<open>Cancelled.\<close> and calls
    \<open>sys.exit(130)\<close>.
  \<^item> When the stream completes: \<open>run_cli\<close> returns, status 0, whether \<open>pbcopy\<close> runs or
    raises an \<open>Exception\<close>.
\<close>

theorem run_cli_exit_status:
  assumes "\<not> arg_show_config a" and "\<not> truthy_str (arg_save_dir a)"
    and "handle_debounce a w = (Inr (), w1)"
    and "arg_debounce a = None \<or> arg_prompt a \<noteq> []"
    and "\<not> arg_tui a"
    and "get_prompt_from_input a w1 = Some p" and "p \<noteq> []"
    and "project_directory a w1 = Inr d"
  shows "fst (run_cli a w) =
     (if \<not> is_dir w1 d then Inl (SystemExit 1)
      else if \<not> truthy_str (groq_api_key w1) then Inl (SystemExit 1)
      else case snd (enrich w1 p) of
             Raised e \<Rightarrow>
               (case e of KeyboardInterrupt \<Rightarrow> Inl (SystemExit 130)
                | SystemExit n \<Rightarrow> Inl (SystemExit n)
                | Exception c m \<Rightarrow> Inl (SystemExit 1))
           | Completed \<Rightarrow>
               (case pbcopy w1 (concat (fst (enrich w1 p))) of
                  None \<Rightarrow> Inr ()
                | Some e \<Rightarrow>
                    (case e of KeyboardInterrupt \<Rightarrow> Inl (SystemExit 130)
                     | SystemExit n \<Rightarrow> Inl (SystemExit n)
                     | Exception c m \<Rightarrow> Inr ())))
     \<and> (\<not> is_dir w1 d
          \<longrightarrow> exit_status (fst (run_cli a w)) = 1
            \<and> dispatched (snd (run_cli a w)) = dispatched w1
            \<and> last (stderr (snd (run_cli a w))) = ''Error: Directory not found: '' @ d @ newline)
     \<and> (is_dir w1 d \<and> \<not> truthy_str (groq_api_key w1)
          \<longrightarrow> exit_status (fst (run_cli a w)) = 1
            \<and> dispatched (snd (run_cli a w)) = dispatched w1
            \<and> last (stderr (snd (run_cli a w)))
                = ''Error: GROQ_API_KEY not set. Set it in environment or .env file.'' @ newline)
     \<and> (is_dir w1 d \<and> truthy_str (groq_api_key w1) \<and> snd (enrich w1 p) = Raised (Exception c m)
          \<longrightarrow> exit_status (fst (run_cli a w)) = 1
            \<and> last (stderr (snd (run_cli a w))) = ''Error: '' @ m @ newline)
     \<and> (is_dir w1 d \<and> truthy_str (groq_api_key w1) \<and> snd (enrich w1 p) = Raised KeyboardInterrupt
          \<longrightarrow> exit_status (fst (run_cli a w)) = 130
            \<and> last (stderr (snd (run_cli a w))) = newline @ ''Cancelled.'' @ newline)
     \<and> (is_dir w1 d \<and> truthy_str (groq_api_key w1) \<and> snd (enrich w1 p) = Completed
          \<and> (pbcopy w1 (concat (fst (enrich w1 p))) = None
              \<or> pbcopy w1 (concat (fst (enrich w1 p))) = Some (Exception c m))
          \<longrightarrow> fst (run_cli a w) = Inr () \<and> exit_status (fst (run_cli a w)) = 0)"
proof -
  from assms have r: "run_cli a w = run_one_shot p a w1"
    by (intro run_cli_one_shot)
  note res = run_one_shot_result [OF assms(8), of p]
  show ?thesis
  proof (intro conjI impI)
    show "fst (run_cli a w) =
     (if \<not> is_dir w1 d then Inl (SystemExit 1)
      else if \<not> truthy_str (groq_api_key w1) then Inl (SystemExit 1)
      else case snd (enrich w1 p) of
             Raised e \<Rightarrow>
               (case e of KeyboardInterrupt \<Rightarrow> Inl (SystemExit 130)
                | SystemExit n \<Rightarrow> Inl (SystemExit n)
                | Exception c m \<Rightarrow> Inl (SystemExit 1))
           | Completed \<Rightarrow>
               (case pbcopy w1 (concat (fst (enrich w1 p))) of
                  None \<Rightarrow> Inr ()
                | Some e \<Rightarrow>
                    (case e of KeyboardInterrupt \<Rightarrow> Inl (SystemExit 130)
                     | SystemExit n \<Rightarrow> Inl (SystemExit n)
                     | Exception c m \<Rightarrow> Inr ())))"
      unfolding r by (rule res)
  next
    assume h: "\<not> is_dir w1 d"
    with res show "exit_status (fst (run_cli a w)) = 1" by (simp add: r)
    from h show "dispatched (snd (run_cli a w)) = dispatched w1"
      by (simp add: r run_one_shot_no_directory [OF assms(8)])
    from h show "last (stderr (snd (run_cli a w))) = ''Error: Directory not found: '' @ d @ newline"
      by (simp add: r run_one_shot_no_directory [OF assms(8)])
  next
    assume h: "is_dir w1 d \<and> \<not> truthy_str (groq_api_key w1)"
    with res show "exit_status (fst (run_cli a w)) = 1" by (simp add: r)
    from h show "dispatched (snd (run_cli a w)) = dispatched w1"
      by (simp add: r run_one_shot_no_key [OF assms(8)])
    from h show "last (stderr (snd (run_cli a w)))
                = ''Error: GROQ_API_KEY not set. Set it in environment or .env file.'' @ newline"
      by (simp add: r run_one_shot_no_key [OF assms(8)])
  next
    assume h: "is_dir w1 d \<and> truthy_str (groq_api_key w1)
                 \<and> snd (enrich w1 p) = Raised (Exception c m)"
    with res show "exit_status (fst (run_cli a w)) = 1" by (simp add: r)
    from h show "last (stderr (snd (run_cli a w))) = ''Error: '' @ m @ newline"
      by (simp add: r run_one_shot_stream_raises [OF assms(8)])
  next
    assume h: "is_dir w1 d \<and> truthy_str (groq_api_key w1)
                 \<and> snd (enrich w1 p) = Raised KeyboardInterrupt"
    with res show "exit_status (fst (run_cli a w)) = 130" by (simp add: r)
    from h show "last (stderr (snd (run_cli a w))) = newline @ ''Cancelled.'' @ newline"
      by (simp add: r run_one_shot_stream_raises [OF assms(8)])
  next
    assume h: "is_dir w1 d \<and> truthy_str (groq_api_key w1) \<and> snd (enrich w1 p) = Completed
          \<and> (pbcopy w1 (concat (fst (enrich w1 p))) = None
              \<or> pbcopy w1 (concat (fst (enrich w1 p))) = Some (Exception c m))"
    with res show "fst (run_cli a w) = Inr ()" by (auto simp: r)
    then show "exit_status (fst (run_cli a w)) = 0" by simp
  qed
qed

theorem run_cli_exit_status_witness:
  "fst (run_cli example_args example_world) = Inr ()
   \<and> exit_status (fst (run_cli example_args example_world)) = 0
   \<and> fst (run_cli (example_args\<lparr>arg_directory := Some ''nowhere''\<rparr>) example_world)
       = Inl (SystemExit 1)
   \<and> exit_status (fst (run_cli (example_args\<lparr>arg_directory := Some ''nowhere''\<rparr>)
                          example_world)) = 1
   \<and> fst (run_cli example_args (example_world\<lparr>groq_api_key := None\<rparr>)) = Inl (SystemExit 1)
   \<and> exit_status (fst (run_cli example_args (example_world\<lparr>groq_api_key := None\<rparr>))) = 1
   \<and> dispatched (snd (run_cli example_args (example_world\<lparr>groq_api_key := None\<rparr>))) = []
   \<and> fst (run_cli example_args
         (example_world\<lparr>enrich := \<lambda>p. ([''Hel''],
              Raised (Exception ''RateLimitError'' ''rate limit exceeded''))\<rparr>))
       = Inl (SystemExit 1)
   \<and> last (stderr (snd (run_cli example_args
         (example_world\<lparr>enrich := \<lambda>p. ([''Hel''],
              Raised (Exception ''RateLimitError'' ''rate limit exceeded''))\<rparr>))))
       = ''Error: rate limit exceeded'' @ newline
   \<and> fst (run_cli example_args
         (example_world\<lparr>enrich := \<lambda>p. ([''Hel''], Raised KeyboardInterrupt)\<rparr>))
       = Inl (SystemExit 130)
   \<and> exit_status (fst (run_cli example_args
         (example_world\<lparr>enrich := \<lambda>p. ([''Hel''], Raised KeyboardInterrupt)\<rparr>))) = 130"
  using
    run_cli_exit_status [of example_args example_world example_world "''add logging''" "''proj''"]
    run_cli_exit_status [of "example_args\<lparr>arg_directory := Some ''nowhere''\<rparr>"
      example_world example_world "''add logging''" "''nowhere''"]
    run_cli_exit_status [of example_args "example_world\<lparr>groq_api_key := None\<rparr>"
      "example_world\<lparr>groq_api_key := None\<rparr>" "''add logging''" "''proj''"]
    run_cli_exit_status [of example_args
      "example_world\<lparr>enrich := \<lambda>p. ([''Hel''],
              Raised (Exception ''RateLimitError'' ''rate limit exceeded''))\<rparr>"
      "example_world\<lparr>enrich := \<lambda>p. ([''Hel''],
              Raised (Exception ''RateLimitError'' ''rate limit exceeded''))\<rparr>"
      "''add logging''" "''proj''" "''RateLimitError''" "''rate limit exceeded''"]
    run_cli_exit_status [of example_args
      "example_world\<lparr>enrich := \<lambda>p. ([''Hel''], Raised KeyboardInterrupt)\<rparr>"
      "example_world\<lparr>enrich := \<lambda>p. ([''Hel''], Raised KeyboardInterrupt)\<rparr>"
      "''add logging''" "''proj''"]
  by (simp add: example_args_def example_world_def handle_debounce_def
      get_prompt_from_input_def project_directory_def)

lemma strip_front_clean: "drop_one wss (strip_front wss s) = None"
proof (induction wss s rule: strip_front.induct)
  case (1 wss s)
  show ?case
  proof (cases "drop_one wss s")
    case None
    then show ?thesis by (simp add: strip_front.simps)
  next
    case (Some t)
    with 1 show ?thesis by (simp add: strip_front.simps)
  qed
qed

lemma strip_examples:
  "strip piped_ascii = ''fix the bug''"
  "strip piped_unicode = ''fix the bug''"
  "strip piped_blank = []"
  by code_simp+

text \<open>
  C7, as the code has it. Where no other mode is chosen, the prompt is selected with a
  fixed precedence: the positional arguments, if there are any, joined with single
  spaces; otherwise, if standard input is not a terminal, its content stripped of
  surrounding white space; otherwise none. A selected prompt that is not empty is the
  prompt of the one-shot run. When none is selected, and also when the selected prompt
  is empty, interactive mode is entered instead.
\<close>

theorem prompt_selection:
  assumes "\<not> arg_show_config a" and "\<not> truthy_str (arg_save_dir a)"
    and "handle_debounce a w = (Inr (), w1)"
    and "arg_debounce a = None \<or> arg_prompt a \<noteq> []"
    and "\<not> arg_tui a"
  shows "get_prompt_from_input a w1 =
           (if arg_prompt a \<noteq> [] then Some (join_sp (arg_prompt a))
            else if \<not> stdin_isatty w1 then Some (strip (stdin_text w1))
            else None)
       \<and> run_cli a w =
           (case get_prompt_from_input a w1 of
              None \<Rightarrow> (Inr (), tui_main w1)
            | Some p \<Rightarrow> if p = [] then (Inr (), tui_main w1) else run_one_shot p a w1)"
  using assms by (auto simp: run_cli_def get_prompt_from_input_def)

theorem prompt_selection_witness:
  "dispatched (snd (run_cli example_args example_world)) = [''add logging'']
   \<and> dispatched (snd (run_cli (example_args\<lparr>arg_prompt := []\<rparr>)
         (example_world\<lparr>stdin_isatty := False, stdin_text := piped_ascii\<rparr>)))
       = [''fix the bug'']
   \<and> dispatched (snd (run_cli (example_args\<lparr>arg_prompt := []\<rparr>)
         (example_world\<lparr>stdin_isatty := False, stdin_text := piped_unicode\<rparr>)))
       = [''fix the bug'']
   \<and> tui_runs (snd (run_cli (example_args\<lparr>arg_prompt := []\<rparr>)
         (example_world\<lparr>stdin_isatty := False, stdin_text := piped_blank\<rparr>))) = 1
   \<and> dispatched (snd (run_cli (example_args\<lparr>arg_prompt := []\<rparr>)
         (example_world\<lparr>stdin_isatty := False, stdin_text := piped_blank\<rparr>))) = []
   \<and> tui_runs (snd (run_cli (example_args\<lparr>arg_prompt := []\<rparr>) example_world)) = 1
   \<and> dispatched (snd (run_cli (example_args\<lparr>arg_prompt := []\<rparr>) example_world)) = []"
  using
    prompt_selection [of example_args example_world example_world]
    prompt_selection [of "example_args\<lparr>arg_prompt := []\<rparr>"
       "example_world\<lparr>stdin_isatty := False, stdin_text := piped_ascii\<rparr>"
       "example_world\<lparr>stdin_isatty := False, stdin_text := piped_ascii\<rparr>"]
    prompt_selection [of "example_args\<lparr>arg_prompt := []\<rparr>"
       "example_world\<lparr>stdin_isatty := False, stdin_text := piped_unicode\<rparr>"
       "example_world\<lparr>stdin_isatty := False, stdin_text := piped_unicode\<rparr>"]
    prompt_selection [of "example_args\<lparr>arg_prompt := []\<rparr>"
       "example_world\<lparr>stdin_isatty := False, stdin_text := piped_blank\<rparr>"
       "example_world\<lparr>stdin_isatty := False, stdin_text := piped_blank\<rparr>"]
    prompt_selection [of "example_args\<lparr>arg_prompt := []\<rparr>" example_world example_world]
  by (simp add: example_args_def example_world_def handle_debounce_def
      get_prompt_from_input_def tui_main_def run_one_shot_def project_directory_def
      run_headless_def Let_def consume_eq log_lines_eq print_err_def print_out_def
      copy_to_clipboard_def strip_examples)

text \<open>
  C7, as the claim has it, fails: with the single positional argument \<open>""\<close> an argument
  is present and the selected prompt is the empty string, yet it is not used: interactive
  mode is entered and nothing is dispatched to the enricher.
\<close>

theorem empty_prompt_enters_tui:
  "arg_prompt (example_args\<lparr>arg_prompt := [[]]\<rparr>) = [[]]
   \<and> get_prompt_from_input (example_args\<lparr>arg_prompt := [[]]\<rparr>) example_world = Some []
   \<and> tui_runs (snd (run_cli (example_args\<lparr>arg_prompt := [[]]\<rparr>) example_world)) = 1
   \<and> dispatched (snd (run_cli (example_args\<lparr>arg_prompt := [[]]\<rparr>) example_world)) = []"
  by (simp add: run_cli_def example_args_def example_world_def handle_debounce_def
      get_prompt_from_input_def tui_main_def)

text \<open>
  C8. After a one-shot enrichment that succeeds, whether \<open>pbcopy\<close> runs or raises an
  \<open>Exception\<close>: the exit status is 0; standard output has received the enriched text,
  chunk by chunk and then a newline, or in quiet mode whole in one \<open>print\<close>; and
  \<open>stderr\<close> has received after the lines of \<open>run_headless\<close> one more line, the note of
  success or the warning, and in quiet mode nothing.
\<close>

theorem clipboard_failure_harmless:
  assumes "\<not> arg_show_config a" and "\<not> truthy_str (arg_save_dir a)"
    and "handle_debounce a w = (Inr (), w1)"
    and "arg_debounce a = None \<or> arg_prompt a \<noteq> []"
    and "\<not> arg_tui a"
    and "get_prompt_from_input a w1 = Some p" and "p \<noteq> []"
    and "project_directory a w1 = Inr d" and "is_dir w1 d"
    and "truthy_str (groq_api_key w1)"
    and "enrich w1 p = (chunks, Completed)"
    and "pbcopy w1 (concat chunks) = None \<or> pbcopy w1 (concat chunks) = Some (Exception cls msg)"
  shows "exit_status (fst (run_cli a w)) = 0
     \<and> stdout (snd (run_cli a w))
         = stdout w1 @ (if arg_quiet a then [concat chunks @ newline] else chunks @ [newline])
     \<and> stderr (snd (run_cli a w))
         = stderr (snd (run_headless p d (arg_quiet a) w1))
           @ (if arg_quiet a then []
              else [case pbcopy w1 (concat chunks) of
                      None \<Rightarrow> newline @ check_mark @ '' Copied to clipboard!'' @ newline
                    | Some e \<Rightarrow> newline @ ''Note: Could not copy to clipboard: ''
                                  @ str_exn e @ newline])"
proof -
  from assms(1-7) have r: "run_cli a w = run_one_shot p a w1"
    by (intro run_cli_one_shot)
  from assms(8-12) have "fst (run_one_shot p a w1) = Inr ()"
    by (rule run_one_shot_success(1))
  moreover from assms(8-12) have "stdout (snd (run_one_shot p a w1))
         = stdout w1 @ (if arg_quiet a then [concat chunks @ newline] else chunks @ [newline])"
    by (rule run_one_shot_success(2))
  moreover from assms(8-12) have "stderr (snd (run_one_shot p a w1))
         = stderr (snd (run_headless p d (arg_quiet a) w1))
           @ (if arg_quiet a then []
              else [case pbcopy w1 (concat chunks) of
                      None \<Rightarrow> newline @ check_mark @ '' Copied to clipboard!'' @ newline
                    | Some e \<Rightarrow> newline @ ''Note: Could not copy to clipboard: ''
                                  @ str_exn e @ newline])"
    by (rule run_one_shot_success(3))
  ultimately show ?thesis using r by simp
qed

theorem clipboard_failure_harmless_witness:
  "exit_status (fst (run_cli example_args
       (example_world\<lparr>pbcopy := \<lambda>t. Some (Exception ''FileNotFoundError''
                                            ''No such file or directory: pbcopy'')\<rparr>))) = 0
   \<and> stdout (snd (run_cli example_args
       (example_world\<lparr>pbcopy := \<lambda>t. Some (Exception ''FileNotFoundError''
                                            ''No such file or directory: pbcopy'')\<rparr>)))
      = [''Hello'', '' world'', newline]
   \<and> last (stderr (snd (run_cli example_args
       (example_world\<lparr>pbcopy := \<lambda>t. Some (Exception ''FileNotFoundError''
                                            ''No such file or directory: pbcopy'')\<rparr>))))
      = newline @ ''Note: Could not copy to clipboard: No such file or directory: pbcopy''
        @ newline
   \<and> exit_status (fst (run_cli (example_args\<lparr>arg_quiet := True\<rparr>)
       (example_world\<lparr>pbcopy := \<lambda>t. Some (Exception ''FileNotFoundError''
                                            ''No such file or directory: pbcopy'')\<rparr>))) = 0
   \<and> stdout (snd (run_cli (example_args\<lparr>arg_quiet := True\<rparr>)
       (example_world\<lparr>pbcopy := \<lambda>t. Some (Exception ''FileNotFoundError''
                                            ''No such file or directory: pbcopy'')\<rparr>)))
      = [''Hello world'' @ newline]
   \<and> stderr (snd (run_cli (example_args\<lparr>arg_quiet := True\<rparr>)
       (example_world\<lparr>pbcopy := \<lambda>t. Some (Exception ''FileNotFoundError''
                                            ''No such file or directory: pbcopy'')\<rparr>))) = []"
  using
    clipboard_failure_harmless [of example_args
       "example_world\<lparr>pbcopy := \<lambda>t. Some (Exception ''FileNotFoundError''
                                            ''No such file or directory: pbcopy'')\<rparr>"
       "example_world\<lparr>pbcopy := \<lambda>t. Some (Exception ''FileNotFoundError''
                                            ''No such file or directory: pbcopy'')\<rparr>"
       "''add logging''" "''proj''" "[''Hello'', '' world'']"
       "''FileNotFoundError''" "''No such file or directory: pbcopy''"]
    clipboard_failure_harmless [of "example_args\<lparr>arg_quiet := True\<rparr>"
       "example_world\<lparr>pbcopy := \<lambda>t. Some (Exception ''FileNotFoundError''
                                            ''No such file or directory: pbcopy'')\<rparr>"
       "example_world\<lparr>pbcopy := \<lambda>t. Some (Exception ''FileNotFoundError''
                                            ''No such file or directory: pbcopy'')\<rparr>"
       "''add logging''" "''proj''" "[''Hello'', '' world'']"
       "''FileNotFoundError''" "''No such file or directory: pbcopy''"]
  by (simp add: example_args_def example_world_def handle_debounce_def
      get_prompt_from_input_def project_directory_def run_headless_def Let_def consume_eq
      log_lines_eq print_err_def print_out_def)

section \<open>The debounce interval\<close>

lemma clamp_range: "100 \<le> max 100 (min 5000 ms) \<and> max 100 (min 5000 (ms::int)) \<le> 5000"
  by simp

lemma set_debounce_ms_stores:
  assumes "cfg_writable w" and "load_config w = Inr c0"
  shows "set_debounce_ms ms w
           = (Inr (), w\<lparr>cfg_exists := True,
                cfg_content := Document (AList.update ''debounce_ms''
                                 (JInt (max 100 (min 5000 ms))) c0)\<rparr>)"
  using assms by (simp add: set_debounce_ms_def save_config_def)

text \<open>
  C2. For every integer \<open>ms\<close> given with \<open>--debounce\<close>, where the configuration loads and
  its file can be written: when \<open>run_cli\<close> is done, whatever mode it went on to, the
  document in the store holds under \<open>debounce_ms\<close> the integer \<open>ms\<close> clamped into the
  range from 100 to 5000.
\<close>

theorem debounce_clamped:
  assumes "\<not> arg_show_config a" and "\<not> truthy_str (arg_save_dir a)"
    and "arg_debounce a = Some ms"
    and "cfg_writable w" and "load_config w = Inr c0"
  shows "\<exists>c m. cfg_content (snd (run_cli a w)) = Document c
           \<and> map_of c ''debounce_ms'' = Some (JInt m)
           \<and> m = max 100 (min 5000 ms) \<and> 100 \<le> m \<and> m \<le> 5000"
proof -
  let ?c = "AList.update ''debounce_ms'' (JInt (max 100 (min 5000 ms))) c0"
  let ?w1 = "print_out (check_mark @ '' Debounce time set to: '' @ str_int ms @ ''ms''
                              @ newline) (w\<lparr>cfg_exists := True, cfg_content := Document ?c\<rparr>)"
  from assms have h: "handle_debounce a w = (Inr (), ?w1)"
    by (simp add: handle_debounce_def set_debounce_ms_stores)
  have c1: "cfg_content ?w1 = Document ?c"
    by (simp add: print_out_def)
  from assms(1,2) h have "cfg_content (snd (run_cli a w)) = cfg_content ?w1"
    by (simp add: run_cli_def tui_main_def run_one_shot_cfg split: option.splits)
  with c1 have "cfg_content (snd (run_cli a w)) = Document ?c" by simp
  moreover have "map_of ?c ''debounce_ms'' = Some (JInt (max 100 (min 5000 ms)))"
    by (simp add: update_conv')
  ultimately show ?thesis using clamp_range by blast
qed

theorem debounce_clamped_witness:
  "(\<exists>c. cfg_content (snd (run_cli (example_args\<lparr>arg_prompt := [], arg_debounce := Some 20\<rparr>)
                      example_world)) = Document c
         \<and> map_of c ''debounce_ms'' = Some (JInt 100))
   \<and> (\<exists>c. cfg_content (snd (run_cli (example_args\<lparr>arg_debounce := Some 9000\<rparr>)
                      example_world)) = Document c
         \<and> map_of c ''debounce_ms'' = Some (JInt 5000))"
  using debounce_clamped [of "example_args\<lparr>arg_prompt := [], arg_debounce := Some 20\<rparr>" 20
                            example_world "[]"]
        debounce_clamped [of "example_args\<lparr>arg_debounce := Some 9000\<rparr>" 9000
                            example_world "[]"]
  by (simp add: example_args_def example_world_def load_config_def)

end
